theory Spec2Isabelle
  imports Main "HOL-Library.List_Lexorder" "HOL-Library.Char_ord" "HOL-Library.Sublist"
begin

section \<open>The Python string operations the program uses\<close>

text \<open>
  A Python \<open>str\<close> is modelled as a \<open>string\<close>, one \<open>char\<close> per character; the
  characters covered are the 256 code points of \<open>char\<close>. \<open>isspace\<close> is the set of
  characters that \<open>str.strip()\<close> treats as white space in that range.
\<close>

definition isspace :: "char \<Rightarrow> bool" where
  "isspace c \<longleftrightarrow> c \<in> {CHR 0x09, CHR 0x0A, CHR 0x0B, CHR 0x0C, CHR 0x0D,
     CHR 0x1C, CHR 0x1D, CHR 0x1E, CHR 0x1F, CHR 0x20, CHR 0x85, CHR 0xA0}"

text \<open>\<open>s.strip()\<close>: white space is removed from both ends.\<close>

definition strip :: "string \<Rightarrow> string" where
  "strip s = rev (dropWhile isspace (rev (dropWhile isspace s)))"

text \<open>
  \<open>s.split(sep)\<close> for a one-character separator: a string with k separators gives
  k + 1 fields, empty fields included; the empty string gives one empty field.
\<close>

fun split :: "char \<Rightarrow> string \<Rightarrow> string list" where
  "split sep [] = [[]]"
| "split sep (c # cs) =
     (if c = sep then [] # split sep cs
      else (case split sep cs of
              [] \<Rightarrow> [[c]]
            | field # fields \<Rightarrow> (c # field) # fields))"

text \<open>
  Reading a file opened in text mode: \<open>universal_newlines\<close> is the translation of
  \<open>\r\n\<close> and \<open>\r\<close> to \<open>\n\<close> that \<open>open(filename, "r")\<close> applies, and
  \<open>readlines\<close> is the sequence of lines that \<open>for line in file\<close> goes through, each
  with its terminating \<open>\n\<close> (the last line has none when the file does not end
  with one).
\<close>

fun universal_newlines :: "string \<Rightarrow> string" where
  "universal_newlines [] = []"
| "universal_newlines [c] = [if c = CHR 0x0D then CHR 0x0A else c]"
| "universal_newlines (c # d # ds) =
     (if c = CHR 0x0D then
        (if d = CHR 0x0A then CHR 0x0A # universal_newlines ds
         else CHR 0x0A # universal_newlines (d # ds))
      else c # universal_newlines (d # ds))"

fun readlines :: "string \<Rightarrow> string list" where
  "readlines [] = []"
| "readlines (c # cs) =
     (if c = CHR 0x0A then [c] # readlines cs
      else (case readlines cs of
              [] \<Rightarrow> [[c]]
            | line # lines \<Rightarrow> (c # line) # lines))"

text \<open>\<open>str(n)\<close> for a natural number, used for the positions that are displayed.\<close>

fun str_of_nat :: "nat \<Rightarrow> string" where
  "str_of_nat n =
     (if n < 10 then [''0123456789'' ! n]
      else str_of_nat (n div 10) @ [''0123456789'' ! (n mod 10)])"

text \<open>
  \<open>int(s)\<close> on a string: white space around the number is ignored, one sign is
  allowed, and single underscores may separate digits. \<open>None\<close> is the \<open>ValueError\<close>.
  A string of more than 4300 digits is refused as well (the interpreter's default limit
  on integer string conversion). The white space that \<open>int()\<close> ignores is not all that
  \<open>str.strip()\<close> removes: the separators U+001C to U+001F are white space for
  \<open>strip()\<close> only, and \<open>int()\<close> raises \<open>ValueError\<close> on a string that has one.
\<close>

definition int_space :: "char \<Rightarrow> bool" where
  "int_space c \<longleftrightarrow> c \<in> {CHR 0x09, CHR 0x0A, CHR 0x0B, CHR 0x0C, CHR 0x0D,
     CHR 0x20, CHR 0x85, CHR 0xA0}"

definition isdigit :: "char \<Rightarrow> bool" where
  "isdigit c \<longleftrightarrow> c \<in> set ''0123456789''"

definition digit_value :: "char \<Rightarrow> nat" where
  "digit_value c = of_char c - 48"

fun parse_digits :: "nat \<Rightarrow> string \<Rightarrow> nat option" where
  "parse_digits acc [] = Some acc"
| "parse_digits acc [c] =
     (if isdigit c then Some (10 * acc + digit_value c) else None)"
| "parse_digits acc (c # d # ds) =
     (if isdigit c then parse_digits (10 * acc + digit_value c) (d # ds)
      else if c = CHR ''_'' \<and> isdigit d then parse_digits (10 * acc + digit_value d) ds
      else None)"

definition parse_nat :: "string \<Rightarrow> nat option" where
  "parse_nat s =
     (case s of
        [] \<Rightarrow> None
      | c # cs \<Rightarrow> if isdigit c then parse_digits (digit_value c) cs else None)"

definition py_int :: "string \<Rightarrow> int option" where
  "py_int s =
     (let t = rev (dropWhile int_space (rev (dropWhile int_space s))) in
      if length (filter isdigit t) > 4300 then None
      else (case t of
              [] \<Rightarrow> None
            | c # cs \<Rightarrow>
                if c = CHR ''-'' then map_option (\<lambda>n. - int n) (parse_nat cs)
                else if c = CHR ''+'' then map_option int (parse_nat cs)
                else map_option int (parse_nat t)))"

section \<open>Tasks and the world the program runs in\<close>

text \<open>
  A task is the dictionary with the keys \<open>"task"\<close>, \<open>"status"\<close>, \<open>"created_at"\<close> and
  \<open>"status_updated_at"\<close>, all four values strings.
\<close>

record task_entry =
  task :: string
  status :: string
  created_at :: string
  status_updated_at :: string

definition STATUSES :: "string list" where
  "STATUSES = [''Open'', ''Blocked'', ''In Progress'', ''Review'', ''Done'']"

text \<open>
  The state the program reads and changes:
  \<^item> \<open>tasks\<close>, the global list;
  \<^item> \<open>files\<close>, the file system, a map from absolute paths to the text of the file;
    \<open>write_error\<close> gives, for a path that cannot be opened for writing, the text of the
    \<open>OSError\<close> raised;
  \<^item> \<open>read_error\<close> gives, for a path that exists and cannot be opened for reading (a
    directory, a file without the permission to read), the text of the \<open>OSError\<close>
    raised; \<open>undecodable\<close> is the set of the files whose bytes are not all text in the
    encoding: reading such a file raises \<open>UnicodeDecodeError\<close>, and \<open>files\<close> gives the
    text of the lines that are read before it does;
  \<^item> \<open>cwd\<close>, the working directory of the process, and \<open>script_dir\<close>, the value of
    \<open>os.path.dirname(os.path.abspath(__file__))\<close>;
  \<^item> \<open>stdin\<close>, the lines the user still has to enter (without their line ends), and
    \<open>stdout\<close>, the texts written so far, one entry for each \<open>print\<close> and each prompt;
  \<^item> \<open>clock\<close>, the reading of \<open>datetime.datetime.now()\<close> already formatted by
    \<open>strftime("%Y-%m-%d %H:%M:%S")\<close>, one reading for each call, and \<open>ticks\<close>, the
    number of readings taken.
\<close>

record world =
  tasks :: "task_entry list"
  files :: "string \<rightharpoonup> string"
  write_error :: "string \<rightharpoonup> string"
  read_error :: "string \<rightharpoonup> string"
  undecodable :: "string set"
  cwd :: string
  script_dir :: string
  stdin :: "string list"
  stdout :: "string list"
  clock :: "nat \<Rightarrow> string"
  ticks :: nat

text \<open>
  The exceptions that leave a function of the program: \<open>input()\<close> raises \<open>EOFError\<close>
  when there is no line left, \<open>open(filename, "w")\<close> and \<open>open(filename, "r")\<close> raise
  \<open>OSError\<close>, and going through the lines of a file raises \<open>UnicodeDecodeError\<close>
  where the bytes are not text. An exception is paired with the world as it is when the
  exception is raised. What the user enters is lines of text and then the end of the
  input; an interrupt from the keyboard is no line of input and is not part of the model,
  and the console takes every text that is printed.
\<close>

datatype exn = EOFError | OSError string | UnicodeDecodeError

definition py_print :: "string \<Rightarrow> world \<Rightarrow> world" where
  "py_print text w = w\<lparr>stdout := stdout w @ [text]\<rparr>"

definition py_input :: "string \<Rightarrow> world \<Rightarrow> (exn \<times> world) + (string \<times> world)" where
  "py_input prompt w =
     (let w1 = py_print prompt w in
      case stdin w1 of
        [] \<Rightarrow> Inl (EOFError, w1)
      | line # rest \<Rightarrow> Inr (line, w1\<lparr>stdin := rest\<rparr>))"

definition datetime_now :: "world \<Rightarrow> string \<times> world" where
  "datetime_now w = (clock w (ticks w), w\<lparr>ticks := Suc (ticks w)\<rparr>)"

text \<open>
  \<open>os.path.join(a, p)\<close> on a POSIX system, and the path the operating system opens
  when the program passes \<open>p\<close>: a relative path is taken from the working directory.
\<close>

definition path_join :: "string \<Rightarrow> string \<Rightarrow> string" where
  "path_join a p =
     (if p \<noteq> [] \<and> hd p = CHR ''/'' then p
      else if a = [] \<or> last a = CHR ''/'' then a @ p
      else a @ ''/'' @ p)"

definition resolve :: "world \<Rightarrow> string \<Rightarrow> string" where
  "resolve w p = path_join (cwd w) p"

section \<open>Persistence\<close>

text \<open>\<open>os.path.exists(p)\<close>: a file or a directory is there, readable or not.\<close>

definition path_exists :: "world \<Rightarrow> string \<Rightarrow> bool" where
  "path_exists w p \<longleftrightarrow> files w (resolve w p) \<noteq> None \<or> read_error w (resolve w p) \<noteq> None"

definition handle_file :: "string \<Rightarrow> world \<Rightarrow> string option \<times> world" where
  "handle_file filename w =
     (let file_path = path_join (script_dir w) filename in
      if \<not> path_exists w file_path then
        (case write_error w (resolve w file_path) of
           Some e \<Rightarrow> (None, py_print (''Error handling file: '' @ e) w)
         | None \<Rightarrow>
             (Some file_path,
              w\<lparr>files := (files w)(resolve w file_path \<mapsto> []),
                undecodable := undecodable w - {resolve w file_path}\<rparr>))
      else (Some file_path, w))"

text \<open>The body of the loop over the lines of the file in \<open>load_tasks\<close>.\<close>

fun load_lines :: "string list \<Rightarrow> task_entry list \<Rightarrow> task_entry list" where
  "load_lines [] ts = ts"
| "load_lines (line # rest) ts =
     (let parts = split (CHR ''|'') (strip line) in
      if length parts = 4 then
        load_lines rest
          (ts @ [\<lparr>task = parts ! 0, status = parts ! 1,
                  created_at = parts ! 2, status_updated_at = parts ! 3\<rparr>])
      else load_lines rest ts)"

text \<open>
  \<open>load_tasks\<close> has no \<open>try\<close>: when the path exists, the \<open>OSError\<close> of \<open>open\<close> and the
  \<open>UnicodeDecodeError\<close> of the loop over the lines leave it. The tasks of the lines read
  before the loop raises are in the list by then.
\<close>

definition load_tasks :: "string \<Rightarrow> world \<Rightarrow> (exn \<times> world) + world" where
  "load_tasks filename w =
     (if path_exists w filename then
        (case read_error w (resolve w filename) of
           Some e \<Rightarrow> Inl (OSError e, w)
         | None \<Rightarrow>
             (case files w (resolve w filename) of
                None \<Rightarrow> Inr w
              | Some content \<Rightarrow>
                  (let w' = w\<lparr>tasks := load_lines (readlines (universal_newlines content))
                                          (tasks w)\<rparr>
                   in if resolve w filename \<in> undecodable w
                      then Inl (UnicodeDecodeError, w') else Inr w')))
      else Inr w)"

definition task_line :: "task_entry \<Rightarrow> string" where
  "task_line t =
     task t @ ''|'' @ status t @ ''|'' @ created_at t @ ''|'' @ status_updated_at t
       @ [CHR 0x0A]"

text \<open>
  \<open>open(filename, "w")\<close> empties the file, so what it held is gone, bytes that were not
  text included: after \<open>save_tasks\<close> the file holds the lines of the tasks and nothing
  else.
\<close>

definition save_tasks :: "string \<Rightarrow> world \<Rightarrow> (exn \<times> world) + world" where
  "save_tasks filename w =
     (case write_error w (resolve w filename) of
        Some e \<Rightarrow> Inl (OSError e, w)
      | None \<Rightarrow>
          Inr (w\<lparr>files := (files w)(resolve w filename \<mapsto> concat (map task_line (tasks w))),
                 undecodable := undecodable w - {resolve w filename}\<rparr>))"

section \<open>The menu and the operations on the task list\<close>

definition display_menu :: "world \<Rightarrow> world" where
  "display_menu w =
     py_print ''6. Exit''
       (py_print ''5. Remove a task''
         (py_print ''4. Change task status''
           (py_print ''3. Edit a task''
             (py_print ''2. Add a new task''
               (py_print ''1. View tasks''
                 (py_print ([CHR 0x0A] @ ''--- Tasks List Menu ---'') w))))))"

text \<open>The text printed for one task by \<open>view_tasks\<close>, \<open>index\<close> counting from 1.\<close>

definition task_display :: "nat \<Rightarrow> task_entry \<Rightarrow> string" where
  "task_display index t =
     str_of_nat index @ ''. '' @ task t @ '' ['' @ status t @ '']'' @ [CHR 0x0A]
       @ ''   Created: '' @ created_at t @ [CHR 0x0A]
       @ ''   Last Status Change: '' @ status_updated_at t"

fun print_each :: "(nat \<Rightarrow> 'a \<Rightarrow> string) \<Rightarrow> nat \<Rightarrow> 'a list \<Rightarrow> world \<Rightarrow> world" where
  "print_each f index [] w = w"
| "print_each f index (x # xs) w = print_each f (Suc index) xs (py_print (f index x) w)"

definition view_tasks :: "world \<Rightarrow> world" where
  "view_tasks w =
     (if tasks w = [] then py_print ''No tasks found!'' w
      else print_each task_display 1 (tasks w)
             (py_print ([CHR 0x0A] @ ''Your Tasks:'') w))"

definition add_task :: "world \<Rightarrow> (exn \<times> world) + world" where
  "add_task w =
     (case py_input ''Enter a new task: '' w of
        Inl e \<Rightarrow> Inl e
      | Inr (line, w1) \<Rightarrow>
          (let task_name = strip line in
           if task_name \<noteq> [] then
             (let (now, w2) = datetime_now w1;
                  w3 = w2\<lparr>tasks := tasks w2 @
                         [\<lparr>task = task_name, status = ''Open'',
                           created_at = now, status_updated_at = now\<rparr>]\<rparr>
              in Inr (py_print (''Task '' @ [CHR 0x27] @ task_name @ [CHR 0x27]
                                  @ '' added successfully with status 'Open'.'') w3))
           else Inr w1))"

text \<open>
  \<open>0 <= index < len(tasks)\<close> guards every access to the list by position, so the
  positions that reach \<open>tasks[index]\<close> and \<open>tasks.pop(index)\<close> are in range.
\<close>

definition in_range :: "int \<Rightarrow> 'a list \<Rightarrow> bool" where
  "in_range index xs \<longleftrightarrow> 0 \<le> index \<and> index < int (length xs)"

definition update_task_status :: "world \<Rightarrow> (exn \<times> world) + world" where
  "update_task_status w0 =
     (let w = view_tasks w0 in
      if tasks w = [] then Inr (py_print ''No tasks available to update status.'' w)
      else
        (case py_input ''Enter the task number to update status: '' w of
           Inl e \<Rightarrow> Inl e
         | Inr (line1, w1) \<Rightarrow>
             (case py_int line1 of
                None \<Rightarrow> Inr (py_print ''Please enter a valid number.'' w1)
              | Some n \<Rightarrow>
                  (let index = n - 1 in
                   if in_range index (tasks w1) then
                     (let w2 = print_each (\<lambda>i s. str_of_nat i @ ''. '' @ s) 1 STATUSES
                                 (py_print ([CHR 0x0A] @ ''Available statuses:'') w1) in
                      case py_input ''Choose a status number: '' w2 of
                        Inl e \<Rightarrow> Inl e
                      | Inr (line2, w3) \<Rightarrow>
                          (case py_int line2 of
                             None \<Rightarrow> Inr (py_print ''Please enter a valid number.'' w3)
                           | Some m \<Rightarrow>
                               (let status_choice = m - 1 in
                                if in_range status_choice STATUSES then
                                  (let w4 = w3\<lparr>tasks := (tasks w3)[nat index :=
                                              (tasks w3 ! nat index)
                                                \<lparr>status := STATUSES ! nat status_choice\<rparr>]\<rparr>;
                                       (now, w5) = datetime_now w4;
                                       w6 = w5\<lparr>tasks := (tasks w5)[nat index :=
                                              (tasks w5 ! nat index)
                                                \<lparr>status_updated_at := now\<rparr>]\<rparr>
                                   in Inr (py_print (''Task '' @ [CHR 0x27]
                                                       @ task (tasks w6 ! nat index)
                                                       @ [CHR 0x27] @ '' status updated.'') w6))
                                else Inr w3)))
                   else Inr w1))))"

text \<open>\<open>tasks.pop(index)\<close> for a position in range: the element and the list without it.\<close>

definition pop :: "nat \<Rightarrow> 'a list \<Rightarrow> 'a \<times> 'a list" where
  "pop i xs = (xs ! i, take i xs @ drop (Suc i) xs)"

definition remove_task :: "world \<Rightarrow> (exn \<times> world) + world" where
  "remove_task w0 =
     (let w = view_tasks w0 in
      if tasks w = [] then Inr w
      else
        (case py_input ''Enter the task number to remove: '' w of
           Inl e \<Rightarrow> Inl e
         | Inr (line, w1) \<Rightarrow>
             (case py_int line of
                None \<Rightarrow> Inr (py_print ''Please enter a valid number.'' w1)
              | Some n \<Rightarrow>
                  (let index = n - 1 in
                   if in_range index (tasks w1) then
                     (let (removed, remaining) = pop (nat index) (tasks w1) in
                      Inr (py_print (''Task '' @ [CHR 0x27] @ task removed @ [CHR 0x27]
                                       @ '' removed successfully!'')
                             (w1\<lparr>tasks := remaining\<rparr>)))
                   else Inr w1))))"

section \<open>The main loop\<close>

text \<open>
  One pass through the body of \<open>while True\<close>: the result says whether the loop was
  left by \<open>break\<close>. An exception raised by an operation leaves the loop and the
  program, nothing in \<open>main\<close> catches it.
\<close>

definition continue :: "(exn \<times> world) + world \<Rightarrow> (exn \<times> world) + (bool \<times> world)" where
  "continue r = (case r of Inl e \<Rightarrow> Inl e | Inr w \<Rightarrow> Inr (False, w))"

definition iteration :: "world \<Rightarrow> (exn \<times> world) + (bool \<times> world)" where
  "iteration w =
     (case py_input ''Choose an option (1-6): '' (display_menu w) of
        Inl e \<Rightarrow> Inl e
      | Inr (line, w1) \<Rightarrow>
          (let choice = strip line in
           if choice = ''1'' then Inr (False, view_tasks w1)
           else if choice = ''2'' then continue (add_task w1)
           else if choice = ''3'' then
             Inr (False, py_print ''Editing task functionality not implemented yet.'' w1)
           else if choice = ''4'' then continue (update_task_status w1)
           else if choice = ''5'' then continue (remove_task w1)
           else if choice = ''6'' then
             (case save_tasks ''tasks.txt'' w1 of
                Inl e \<Rightarrow> Inl e
              | Inr w2 \<Rightarrow> Inr (True, py_print ''Tasks saved, Goodbye!'' w2))
           else Inr (False, w1)))"

text \<open>
  \<open>while True\<close>: the loop goes on until an iteration leaves it. Every iteration takes
  at least the line of the menu choice from \<open>stdin\<close>, so on a finite input the loop
  ends: normally after \<open>break\<close>, or with the exception that \<open>input()\<close> raises once the
  lines are used up.
\<close>

function main_loop :: "world \<Rightarrow> (exn \<times> world) + world" where
  "main_loop w =
     (case iteration w of
        Inl e \<Rightarrow> Inl e
      | Inr (left, w') \<Rightarrow> if left then Inr w' else main_loop w')"
  by pat_completeness auto
termination
proof (relation "measure (\<lambda>w. length (stdin w))")
  show "wf (measure (\<lambda>w. length (stdin w)))" by simp
next
  fix w :: world and x2 left w'
  assume it: "iteration w = Inr x2" and x2: "(left, w') = x2" and nl: "\<not> left"
  have pe: "stdin (print_each f i xs v) = stdin v"
    for f :: "nat \<Rightarrow> 'a \<Rightarrow> string" and i xs v
    by (induction xs arbitrary: i v) (simp_all add: py_print_def)
  have vt: "stdin (view_tasks v) = stdin v" for v
    by (simp add: view_tasks_def pe py_print_def)
  have dm: "stdin (display_menu v) = stdin v" for v
    by (simp add: display_menu_def py_print_def)
  have inp: "py_input p v = Inr (l, v') \<Longrightarrow> length (stdin v') < length (stdin v)"
    for p v l v'
    by (auto simp: py_input_def py_print_def Let_def split: list.splits)
  have add: "add_task v = Inr v' \<Longrightarrow> length (stdin v') \<le> length (stdin v)" for v v'
    by (auto simp: add_task_def py_input_def py_print_def datetime_now_def Let_def
             split: list.splits if_splits)
  have upd: "update_task_status v = Inr v' \<Longrightarrow> length (stdin v') \<le> length (stdin v)"
    for v v'
    by (auto simp: update_task_status_def py_input_def py_print_def datetime_now_def
                   Let_def vt pe
             split: list.splits if_splits option.splits)
  have rem: "remove_task v = Inr v' \<Longrightarrow> length (stdin v') \<le> length (stdin v)" for v v'
    by (auto simp: remove_task_def py_input_def py_print_def pop_def Let_def vt
             split: list.splits if_splits option.splits)
  obtain line w1
    where i1: "py_input ''Choose an option (1-6): '' (display_menu w) = Inr (line, w1)"
      and rest: "length (stdin w') \<le> length (stdin w1)"
    using it x2 nl add upd rem
    by (auto simp: iteration_def continue_def Let_def vt py_print_def save_tasks_def
             split: sum.splits if_splits prod.splits option.splits)
  from inp[OF i1] rest dm show "(w', w) \<in> measure (\<lambda>w. length (stdin w))" by simp
qed

declare main_loop.simps [simp del]

text \<open>
  \<open>main\<close> calls \<open>load_tasks()\<close> before the loop, outside any \<open>try\<close>: an exception of
  \<open>load_tasks\<close> ends the program before the menu is shown.
\<close>

definition main :: "world \<Rightarrow> (exn \<times> world) + world" where
  "main w =
     (case load_tasks ''tasks.txt'' w of
        Inl e \<Rightarrow> Inl e
      | Inr w' \<Rightarrow> main_loop w')"

section \<open>Notions used to state the properties\<close>

text \<open>The world at the end of a call, and the exception that left it, if any.\<close>

definition outcome :: "(exn \<times> world) + world \<Rightarrow> world" where
  "outcome r = (case r of Inl (e, w) \<Rightarrow> w | Inr w \<Rightarrow> w)"

definition raised :: "(exn \<times> world) + world \<Rightarrow> exn option" where
  "raised r = (case r of Inl (e, w) \<Rightarrow> Some e | Inr w \<Rightarrow> None)"

text \<open>
  A session for the examples: the task list, the files and the lines the user enters are
  given; the program is run from its own directory, every file can be written and read
  as text, and the clock stands at one reading.
\<close>

definition session :: "task_entry list \<Rightarrow> (string \<rightharpoonup> string) \<Rightarrow> string list \<Rightarrow> world" where
  "session ts fs lines =
     \<lparr>tasks = ts, files = fs, write_error = Map.empty, read_error = Map.empty,
      undecodable = {},
      cwd = ''/home/user/tasks_app'', script_dir = ''/home/user/tasks_app'',
      stdin = lines, stdout = [],
      clock = (\<lambda>n. ''2024-05-01 12:00:00''), ticks = 0\<rparr>"

text \<open>
  Saving the list and loading the file again in a new run of the program, where the
  list starts empty.
\<close>

definition save_then_load :: "string \<Rightarrow> world \<Rightarrow> (exn \<times> world) + world" where
  "save_then_load filename w =
     (case save_tasks filename w of
        Inl e \<Rightarrow> Inl e
      | Inr w' \<Rightarrow> load_tasks filename (w'\<lparr>tasks := []\<rparr>))"

text \<open>
  What a task must be like for its line in the file to be read back as it was written:
  no field holds the delimiter or a line end, and the line does not change under
  \<open>strip()\<close>, that is, the title does not begin and the last field does not end with
  white space.
\<close>

definition plain :: "string \<Rightarrow> bool" where
  "plain s \<longleftrightarrow> CHR ''|'' \<notin> set s \<and> CHR 0x0A \<notin> set s \<and> CHR 0x0D \<notin> set s"

definition storable :: "task_entry \<Rightarrow> bool" where
  "storable t \<longleftrightarrow>
     plain (task t) \<and> plain (status t) \<and> plain (created_at t) \<and> plain (status_updated_at t)
     \<and> (task t = [] \<or> \<not> isspace (hd (task t)))
     \<and> (status_updated_at t = [] \<or> \<not> isspace (last (status_updated_at t)))"

text \<open>The status of the task is one of the five labels.\<close>

definition valid_status :: "task_entry \<Rightarrow> bool" where
  "valid_status t \<longleftrightarrow> status t \<in> set STATUSES"

text \<open>
  The fields of a line of the file, and the task \<open>load_tasks\<close> makes of a line with four
  fields.
\<close>

definition fields :: "string \<Rightarrow> string list" where
  "fields line = split (CHR ''|'') (strip line)"

definition four_fields :: "string \<Rightarrow> bool" where
  "four_fields line \<longleftrightarrow> length (split (CHR ''|'') line) = 4"

definition task_of_line :: "string \<Rightarrow> task_entry" where
  "task_of_line line =
     \<lparr>task = fields line ! 0, status = fields line ! 1,
      created_at = fields line ! 2, status_updated_at = fields line ! 3\<rparr>"

text \<open>The lines of the menu, in the order \<open>display_menu\<close> prints them.\<close>

definition menu :: "string list" where
  "menu = [[CHR 0x0A] @ ''--- Tasks List Menu ---'', ''1. View tasks'',
     ''2. Add a new task'', ''3. Edit a task'', ''4. Change task status'',
     ''5. Remove a task'', ''6. Exit'']"

text \<open>The line of a task in the file, without its line end.\<close>

definition record_of :: "task_entry \<Rightarrow> string" where
  "record_of t =
     task t @ ''|'' @ status t @ ''|'' @ created_at t @ ''|'' @ status_updated_at t"

text \<open>Three tasks for the examples.\<close>

definition buy_milk :: task_entry where
  "buy_milk = \<lparr>task = ''Buy milk'', status = ''Open'',
      created_at = ''2024-05-01 12:00:00'', status_updated_at = ''2024-05-01 12:00:00''\<rparr>"

definition pay_rent :: task_entry where
  "pay_rent = \<lparr>task = ''Pay rent'', status = ''Blocked'',
      created_at = ''2024-04-28 09:15:00'', status_updated_at = ''2024-04-30 18:00:00''\<rparr>"

definition call_ann :: task_entry where
  "call_ann = \<lparr>task = ''Call Ann'', status = ''In Progress'',
      created_at = ''2024-04-29 08:00:00'', status_updated_at = ''2024-04-29 08:05:00''\<rparr>"

text \<open>The texts that \<open>print_each\<close> and \<open>view_tasks\<close> write, as lists.\<close>

fun each_lines :: "(nat \<Rightarrow> 'a \<Rightarrow> string) \<Rightarrow> nat \<Rightarrow> 'a list \<Rightarrow> string list" where
  "each_lines f index [] = []"
| "each_lines f index (x # xs) = f index x # each_lines f (Suc index) xs"

definition view_lines :: "task_entry list \<Rightarrow> string list" where
  "view_lines ts =
     (if ts = [] then [''No tasks found!'']
      else ([CHR 0x0A] @ ''Your Tasks:'') # each_lines task_display 1 ts)"


section \<open>Loading\<close>

lemma load_lines_acc: "load_lines ls ts = ts @ load_lines ls []"
proof (induction ls arbitrary: ts)
  case Nil
  show ?case by simp
next
  case (Cons l ls)
  show ?case
    using Cons.IH[of "ts @ [task_of_line l]"] Cons.IH[of "[task_of_line l]"] Cons.IH[of ts]
    by (simp add: Let_def task_of_line_def fields_def)
qed

lemma length_split: "length (split sep s) = Suc (length (filter (\<lambda>c. c = sep) s))"
  by (induction s) (auto split: list.splits)

lemma filter_dropWhile_other:
  "(\<And>c. Q c \<Longrightarrow> \<not> P c) \<Longrightarrow> filter P (dropWhile Q s) = filter P s"
  by (induction s) auto

lemma pipe_not_space: "isspace c \<Longrightarrow> c \<noteq> CHR ''|''"
  by (auto simp: isspace_def)

lemma pipes_strip:
  "length (filter (\<lambda>c. c = CHR ''|'') (strip s)) = length (filter (\<lambda>c. c = CHR ''|'') s)"
proof -
  have "filter (\<lambda>c. c = CHR ''|'') (strip s) = filter (\<lambda>c. c = CHR ''|'') s"
    unfolding strip_def
    by (simp add: rev_filter[symmetric] filter_dropWhile_other pipe_not_space)
  then show ?thesis by simp
qed

text \<open>
  \<open>strip()\<close> takes no delimiter away, so the line read from the file and the stripped
  line that \<open>load_tasks\<close> splits have the same number of fields.
\<close>

lemma length_fields: "length (fields line) = length (split (CHR ''|'') line)"
  by (simp add: fields_def length_split pipes_strip)

lemma load_lines_filter: "load_lines ls [] = map task_of_line (filter four_fields ls)"
proof (induction ls)
  case Nil
  show ?case by simp
next
  case (Cons l ls)
  have "load_lines (l # ls) [] =
          (if four_fields l then task_of_line l # load_lines ls [] else load_lines ls [])"
    using load_lines_acc[of ls "[task_of_line l]"] length_fields[of l]
    by (simp add: Let_def task_of_line_def fields_def four_fields_def)
  then show ?case using Cons.IH by simp
qed

lemma load_tasks_frame:
  "files (outcome (load_tasks f w)) = files w" "cwd (outcome (load_tasks f w)) = cwd w"
  "stdin (outcome (load_tasks f w)) = stdin w" "stdout (outcome (load_tasks f w)) = stdout w"
  "write_error (outcome (load_tasks f w)) = write_error w"
  by (simp_all add: load_tasks_def outcome_def Let_def split: option.splits)

lemma load_tasks_text:
  assumes "files w (resolve w filename) = Some content"
    and "read_error w (resolve w filename) = None"
    and "resolve w filename \<notin> undecodable w"
  shows "load_tasks filename w =
           Inr (w\<lparr>tasks := tasks w @ map task_of_line
                       (filter four_fields (readlines (universal_newlines content)))\<rparr>)"
  using assms load_lines_acc[of _ "tasks w"]
  by (simp add: load_tasks_def path_exists_def load_lines_filter)

lemma load_tasks_tasks:
  "tasks (outcome (load_tasks filename w)) = tasks w
   \<or> (\<exists>content. files w (resolve w filename) = Some content
         \<and> tasks (outcome (load_tasks filename w)) =
             tasks w @ map task_of_line
                         (filter four_fields (readlines (universal_newlines content))))"
  using load_lines_acc[of _ "tasks w"]
  by (simp add: load_tasks_def outcome_def Let_def load_lines_filter split: option.splits)

text \<open>
  C7. \<open>load_tasks\<close> goes through the lines of the file in order, makes a task of every
  line that splits into exactly four fields on \<open>|\<close> and passes over every other line;
  the tasks are appended to the list. For a file that can be opened and read as text it
  returns whatever the text is: no line makes it raise.
\<close>

theorem load_tasks_lenient:
  assumes "files w (resolve w filename) = Some content"
    and "read_error w (resolve w filename) = None"
    and "resolve w filename \<notin> undecodable w"
  shows "load_tasks filename w =
           Inr (w\<lparr>tasks := tasks w @ map task_of_line
                       (filter four_fields (readlines (universal_newlines content)))\<rparr>)"
  using assms by (rule load_tasks_text)

text \<open>
  A file with one well-formed line and one line of two fields: exactly one task is
  loaded, and nothing is raised.
\<close>

theorem load_tasks_lenient_witness:
  "raised (load_tasks ''tasks.txt''
            (session []
               [''/home/user/tasks_app/tasks.txt'' \<mapsto>
                  ''Buy milk|Open|2024-01-01 10:00:00|2024-01-01 10:00:00'' @ [CHR 0x0A]
                    @ ''broken|line'' @ [CHR 0x0A]] [])) = None
   \<and> tasks (outcome (load_tasks ''tasks.txt''
            (session []
               [''/home/user/tasks_app/tasks.txt'' \<mapsto>
                  ''Buy milk|Open|2024-01-01 10:00:00|2024-01-01 10:00:00'' @ [CHR 0x0A]
                    @ ''broken|line'' @ [CHR 0x0A]] [])))
   = [\<lparr>task = ''Buy milk'', status = ''Open'', created_at = ''2024-01-01 10:00:00'',
       status_updated_at = ''2024-01-01 10:00:00''\<rparr>]"
  using load_tasks_lenient[of
      "session [] [''/home/user/tasks_app/tasks.txt'' \<mapsto>
                  ''Buy milk|Open|2024-01-01 10:00:00|2024-01-01 10:00:00'' @ [CHR 0x0A]
                    @ ''broken|line'' @ [CHR 0x0A]] []"
      "''tasks.txt''"
      "''Buy milk|Open|2024-01-01 10:00:00|2024-01-01 10:00:00'' @ [CHR 0x0A]
                    @ ''broken|line'' @ [CHR 0x0A]"]
  by (simp add: session_def resolve_def path_join_def four_fields_def task_of_line_def
                fields_def strip_def isspace_def raised_def outcome_def)

text \<open>
  C10. \<open>load_tasks\<close> does not reset the list. The tasks made of the four-field lines of
  the file are appended, in the order of the lines, to the tasks that are there, which
  stay in front as they were; a list that is not empty before the call is not empty
  after it. Loading the same file a second time appends the tasks of the file once
  more, so every task of the file is in the list twice.
\<close>

theorem load_tasks_additive:
  assumes "files w (resolve w filename) = Some content"
    and "read_error w (resolve w filename) = None"
    and "resolve w filename \<notin> undecodable w"
  shows "\<exists>w1 w2. load_tasks filename w = Inr w1 \<and> load_tasks filename w1 = Inr w2
     \<and> tasks w1 = tasks w @ map task_of_line
                     (filter four_fields (readlines (universal_newlines content)))
     \<and> take (length (tasks w)) (tasks w1) = tasks w
     \<and> tasks w2 = tasks w @ map task_of_line
                     (filter four_fields (readlines (universal_newlines content)))
                   @ map task_of_line
                     (filter four_fields (readlines (universal_newlines content)))"
proof -
  define loaded where
    "loaded = map task_of_line (filter four_fields (readlines (universal_newlines content)))"
  define w1 where "w1 = w\<lparr>tasks := tasks w @ loaded\<rparr>"
  define w2 where "w2 = w1\<lparr>tasks := tasks w1 @ loaded\<rparr>"
  have 1: "load_tasks filename w = Inr w1"
    using load_tasks_text[OF assms] by (simp add: w1_def loaded_def)
  have same: "files w1 (resolve w1 filename) = Some content"
    "read_error w1 (resolve w1 filename) = None" "resolve w1 filename \<notin> undecodable w1"
    using assms by (simp_all add: w1_def resolve_def)
  have 2: "load_tasks filename w1 = Inr w2"
    using load_tasks_text[OF same] by (simp add: w2_def loaded_def)
  have 3: "tasks w1 = tasks w @ loaded" "take (length (tasks w)) (tasks w1) = tasks w"
    "tasks w2 = tasks w @ loaded @ loaded"
    by (simp_all add: w1_def w2_def)
  from 1 2 3 show ?thesis
    unfolding loaded_def by (intro exI[of _ w1] exI[of _ w2] conjI)
qed

text \<open>
  The list holds one task, and the file has two well-formed lines and one line of two
  fields between them: after one call the list holds three tasks, the first as before;
  after the second call it holds five, the two of the file twice.
\<close>

theorem load_tasks_additive_witness:
  "\<exists>w1 w2.
     load_tasks ''tasks.txt''
       (session [pay_rent]
          [''/home/user/tasks_app/tasks.txt'' \<mapsto>
             task_line buy_milk @ ''broken|line'' @ [CHR 0x0A] @ task_line call_ann] [])
       = Inr w1
     \<and> load_tasks ''tasks.txt'' w1 = Inr w2
     \<and> tasks w1 = [pay_rent, buy_milk, call_ann]
     \<and> tasks w2 = [pay_rent, buy_milk, call_ann, buy_milk, call_ann]"
proof -
  let ?c = "task_line buy_milk @ ''broken|line'' @ [CHR 0x0A] @ task_line call_ann"
  let ?w = "session [pay_rent] [''/home/user/tasks_app/tasks.txt'' \<mapsto> ?c] []"
  have h: "files ?w (resolve ?w ''tasks.txt'') = Some ?c"
    "read_error ?w (resolve ?w ''tasks.txt'') = None"
    "resolve ?w ''tasks.txt'' \<notin> undecodable ?w"
    by (simp_all add: session_def resolve_def path_join_def)
  have l: "map task_of_line (filter four_fields (readlines (universal_newlines ?c)))
             = [buy_milk, call_ann]"
    by (simp add: task_line_def buy_milk_def call_ann_def four_fields_def task_of_line_def
                  fields_def strip_def isspace_def)
  have t: "tasks ?w = [pay_rent]" by (simp add: session_def)
  show ?thesis
    using load_tasks_additive[OF h] unfolding l t by auto
qed

section \<open>Saving and loading again\<close>

lemma universal_newlines_id: "CHR 0x0D \<notin> set s \<Longrightarrow> universal_newlines s = s"
  by (induction s rule: universal_newlines.induct) auto

lemma readlines_line:
  "CHR 0x0A \<notin> set l \<Longrightarrow> readlines (l @ CHR 0x0A # rest) = (l @ [CHR 0x0A]) # readlines rest"
  by (induction l) auto

lemma split_field:
  "sep \<notin> set a \<Longrightarrow> split sep (a @ sep # rest) = a # split sep rest"
  by (induction a) auto

lemma split_last_field: "sep \<notin> set a \<Longrightarrow> split sep a = [a]"
  by (induction a) auto

lemma dropWhile_hd: "s \<noteq> [] \<Longrightarrow> \<not> P (hd s) \<Longrightarrow> dropWhile P s = s"
  by (cases s) auto

lemma strip_line:
  assumes "s \<noteq> []" "\<not> isspace (hd s)" "\<not> isspace (last s)"
  shows "strip (s @ [CHR 0x0A]) = s"
proof -
  have nl: "isspace (CHR 0x0A)" by (simp add: isspace_def)
  have 1: "dropWhile isspace (s @ [CHR 0x0A]) = s @ [CHR 0x0A]"
    using assms by (simp add: dropWhile_hd)
  have 2: "dropWhile isspace (rev s) = rev s"
    using assms by (simp add: dropWhile_hd hd_rev)
  show ?thesis unfolding strip_def 1 using nl 2 by simp
qed

lemma task_line_record: "task_line t = record_of t @ [CHR 0x0A]"
  by (simp add: task_line_def record_of_def)

lemma record_of_props:
  assumes "storable t"
  shows "record_of t \<noteq> []" "\<not> isspace (hd (record_of t))" "\<not> isspace (last (record_of t))"
    "CHR 0x0A \<notin> set (record_of t)" "CHR 0x0D \<notin> set (record_of t)"
proof -
  have bar: "\<not> isspace (CHR ''|'')" by (simp add: isspace_def)
  show "record_of t \<noteq> []" by (simp add: record_of_def)
  show "\<not> isspace (hd (record_of t))"
    using assms bar by (cases "task t") (auto simp: record_of_def storable_def)
  show "\<not> isspace (last (record_of t))"
    using assms bar
    by (cases "status_updated_at t = []") (auto simp: record_of_def storable_def)
  show "CHR 0x0A \<notin> set (record_of t)" "CHR 0x0D \<notin> set (record_of t)"
    using assms by (auto simp: record_of_def storable_def plain_def)
qed

lemma fields_task_line:
  assumes "storable t"
  shows "fields (task_line t) = [task t, status t, created_at t, status_updated_at t]"
proof -
  have "strip (task_line t) = record_of t"
    using record_of_props(1-3)[OF assms] by (simp add: task_line_record strip_line)
  moreover have "split (CHR ''|'') (record_of t)
                   = [task t, status t, created_at t, status_updated_at t]"
    using assms
    by (simp add: record_of_def storable_def plain_def split_field split_last_field)
  ultimately show ?thesis by (simp add: fields_def)
qed

lemma task_of_line_task_line: "storable t \<Longrightarrow> task_of_line (task_line t) = t"
  by (simp add: task_of_line_def fields_task_line)

lemma four_fields_task_line: "storable t \<Longrightarrow> four_fields (task_line t)"
  using length_fields[of "task_line t"] by (simp add: four_fields_def fields_task_line)

lemma readlines_saved:
  "\<forall>t \<in> set ts. storable t \<Longrightarrow> readlines (concat (map task_line ts)) = map task_line ts"
  by (induction ts) (simp_all add: task_line_record readlines_line record_of_props)

lemma saved_no_cr:
  "\<forall>t \<in> set ts. storable t \<Longrightarrow> CHR 0x0D \<notin> set (concat (map task_line ts))"
  by (induction ts) (simp_all add: task_line_record record_of_props)

lemma parse_saved:
  "\<forall>t \<in> set ts. storable t
     \<Longrightarrow> map task_of_line (filter four_fields (map task_line ts)) = ts"
  by (induction ts) (simp_all add: task_of_line_task_line four_fields_task_line)

text \<open>
  C1, as the code has it. When no field of a task holds \<open>|\<close> or a line end, no title
  begins with white space and no \<open>status_updated_at\<close> ends with white space, and the file
  can be written and then opened for reading, then saving the list and loading the file
  into an empty list gives the same tasks in the same order, every field as it was.
\<close>

theorem save_load_roundtrip:
  assumes "\<forall>t \<in> set (tasks w). storable t"
    and "write_error w (resolve w filename) = None"
    and "read_error w (resolve w filename) = None"
  shows "\<exists>w'. save_then_load filename w = Inr w' \<and> tasks w' = tasks w"
proof -
  let ?c = "concat (map task_line (tasks w))"
  have "universal_newlines ?c = ?c"
    using saved_no_cr[OF assms(1)] by (rule universal_newlines_id)
  then have "load_lines (readlines (universal_newlines ?c)) [] = tasks w"
    by (simp add: readlines_saved[OF assms(1)] load_lines_filter parse_saved[OF assms(1)])
  then show ?thesis
    using assms(2,3)
    by (simp add: save_then_load_def save_tasks_def load_tasks_def path_exists_def
                  resolve_def)
qed

theorem save_load_roundtrip_witness:
  "storable \<lparr>task = ''Buy milk'', status = ''Open'', created_at = ''2024-05-01 12:00:00'',
             status_updated_at = ''2024-05-01 12:00:00''\<rparr>
   \<and> storable \<lparr>task = ''Call Ann  '', status = ''In Progress'',
               created_at = ''2024-05-01 12:00:00'', status_updated_at = ''2024-05-02 08:30:00''\<rparr>
   \<and> (\<exists>w'. save_then_load ''tasks.txt''
               (session [\<lparr>task = ''Buy milk'', status = ''Open'',
                           created_at = ''2024-05-01 12:00:00'',
                           status_updated_at = ''2024-05-01 12:00:00''\<rparr>,
                         \<lparr>task = ''Call Ann  '', status = ''In Progress'',
                           created_at = ''2024-05-01 12:00:00'',
                           status_updated_at = ''2024-05-02 08:30:00''\<rparr>] Map.empty []) = Inr w'
             \<and> tasks w' = [\<lparr>task = ''Buy milk'', status = ''Open'',
                              created_at = ''2024-05-01 12:00:00'',
                              status_updated_at = ''2024-05-01 12:00:00''\<rparr>,
                            \<lparr>task = ''Call Ann  '', status = ''In Progress'',
                              created_at = ''2024-05-01 12:00:00'',
                              status_updated_at = ''2024-05-02 08:30:00''\<rparr>])"
  using save_load_roundtrip[of
      "session [\<lparr>task = ''Buy milk'', status = ''Open'',
                           created_at = ''2024-05-01 12:00:00'',
                           status_updated_at = ''2024-05-01 12:00:00''\<rparr>,
                         \<lparr>task = ''Call Ann  '', status = ''In Progress'',
                           created_at = ''2024-05-01 12:00:00'',
                           status_updated_at = ''2024-05-02 08:30:00''\<rparr>] Map.empty []"
      "''tasks.txt''"]
  by (simp add: storable_def plain_def isspace_def session_def)

text \<open>
  C1 as stated fails: a title without \<open>|\<close> that begins with a space comes back without
  the space, since \<open>load_tasks\<close> strips every line.
\<close>

theorem save_load_roundtrip_counterexample:
  "CHR ''|'' \<notin> set '' Buy milk''
   \<and> map task (tasks (outcome (save_then_load ''tasks.txt''
        (session [\<lparr>task = '' Buy milk'', status = ''Open'',
                   created_at = ''2024-05-01 12:00:00'',
                   status_updated_at = ''2024-05-01 12:00:00''\<rparr>] Map.empty []))))
     = [''Buy milk'']
   \<and> ''Buy milk'' \<noteq> '' Buy milk''"
  by (simp add: save_then_load_def save_tasks_def load_tasks_def path_exists_def outcome_def
                session_def resolve_def path_join_def task_line_def strip_def isspace_def)

section \<open>What printing leaves alone\<close>

lemma print_each_stdout:
  "\<exists>out. print_each f i xs w = w\<lparr>stdout := stdout w @ out\<rparr>"
proof (induction xs arbitrary: i w)
  case Nil
  have "w = w\<lparr>stdout := stdout w @ []\<rparr>" by simp
  then show ?case by (metis print_each.simps(1))
next
  case (Cons x xs)
  obtain out where "print_each f (Suc i) xs (py_print (f i x) w)
      = (py_print (f i x) w)\<lparr>stdout := stdout (py_print (f i x) w) @ out\<rparr>"
    using Cons.IH by blast
  then have "print_each f i (x # xs) w = w\<lparr>stdout := stdout w @ (f i x # out)\<rparr>"
    by (simp add: py_print_def)
  then show ?case by blast
qed

lemma print_each_frame:
  "tasks (print_each f i xs w) = tasks w" "files (print_each f i xs w) = files w"
  "stdin (print_each f i xs w) = stdin w" "clock (print_each f i xs w) = clock w"
  "ticks (print_each f i xs w) = ticks w" "cwd (print_each f i xs w) = cwd w"
  "write_error (print_each f i xs w) = write_error w"
proof -
  obtain out where "print_each f i xs w = w\<lparr>stdout := stdout w @ out\<rparr>"
    using print_each_stdout by blast
  then show "tasks (print_each f i xs w) = tasks w" "files (print_each f i xs w) = files w"
    "stdin (print_each f i xs w) = stdin w" "clock (print_each f i xs w) = clock w"
    "ticks (print_each f i xs w) = ticks w" "cwd (print_each f i xs w) = cwd w"
    "write_error (print_each f i xs w) = write_error w"
    by simp_all
qed

lemma view_tasks_frame:
  "tasks (view_tasks w) = tasks w" "files (view_tasks w) = files w"
  "stdin (view_tasks w) = stdin w" "clock (view_tasks w) = clock w"
  "ticks (view_tasks w) = ticks w" "cwd (view_tasks w) = cwd w"
  "write_error (view_tasks w) = write_error w"
  by (simp_all add: view_tasks_def print_each_frame py_print_def)

lemma display_menu_frame:
  "tasks (display_menu w) = tasks w" "files (display_menu w) = files w"
  "stdin (display_menu w) = stdin w" "clock (display_menu w) = clock w"
  "ticks (display_menu w) = ticks w" "cwd (display_menu w) = cwd w"
  "write_error (display_menu w) = write_error w"
  "stdout (display_menu w) = stdout w @ menu"
  by (simp_all add: display_menu_def py_print_def menu_def)

section \<open>Adding a task\<close>

text \<open>
  C5. \<open>add_task\<close> takes the title from the next line the user enters. When the title is
  empty after trimming, the list stays as it is. Otherwise exactly one task is appended,
  so the list is longer by one; the new task has the trimmed title and the status
  \<open>Open\<close>, and its two time stamps are the same reading of the clock. The task is handed
  to the confirmation display: the message that is printed names its title.
\<close>

theorem add_task_postcondition:
  assumes "stdin w = title # rest"
  shows "\<exists>w'. add_task w = Inr w' \<and> files w' = files w \<and>
     (if strip title = [] then tasks w' = tasks w
      else (\<exists>t. tasks w' = tasks w @ [t] \<and> length (tasks w') = length (tasks w) + 1
              \<and> task t = strip title \<and> status t = ''Open''
              \<and> created_at t = clock w (ticks w) \<and> status_updated_at t = created_at t
              \<and> stdout w' = stdout w @ [''Enter a new task: '',
                   ''Task '' @ [CHR 0x27] @ task t @ [CHR 0x27]
                     @ '' added successfully with status 'Open'.'']))"
  using assms
  by (simp add: add_task_def py_input_def py_print_def datetime_now_def Let_def)

theorem add_task_postcondition_witness:
  "(\<exists>w'. add_task (session [] Map.empty [''  Buy milk '']) = Inr w'
       \<and> (\<exists>t. tasks w' = [t] \<and> length (tasks w') = 1
              \<and> task t = ''Buy milk'' \<and> status t = ''Open''
              \<and> created_at t = ''2024-05-01 12:00:00'' \<and> status_updated_at t = created_at t
              \<and> stdout w' = [''Enter a new task: '',
                              ''Task 'Buy milk' added successfully with status 'Open'.'']))
   \<and> (\<exists>w'. add_task (session [] Map.empty [''   '']) = Inr w' \<and> tasks w' = [])"
proof -
  have a: "stdin (session [] Map.empty [''  Buy milk '']) = ''  Buy milk '' # []"
    and b: "stdin (session [] Map.empty [''   '']) = ''   '' # []"
    by (simp_all add: session_def)
  have sa: "strip ''  Buy milk '' = ''Buy milk''" and sb: "strip ''   '' = []"
    by (simp_all add: strip_def isspace_def)
  show ?thesis
    using add_task_postcondition[OF a] add_task_postcondition[OF b]
    unfolding sa sb by (auto simp: session_def)
qed

section \<open>Removing a task\<close>

lemma pop_nth:
  assumes "i < length xs"
  shows "Suc (length (snd (pop i xs))) = length xs"
    and "k < i \<Longrightarrow> snd (pop i xs) ! k = xs ! k"
    and "i \<le> k \<Longrightarrow> k < length (snd (pop i xs)) \<Longrightarrow> snd (pop i xs) ! k = xs ! Suc k"
proof -
  show len: "Suc (length (snd (pop i xs))) = length xs"
    using assms by (simp add: pop_def)
  show "snd (pop i xs) ! k = xs ! k" if "k < i"
    using that assms by (simp add: pop_def nth_append)
  show "snd (pop i xs) ! k = xs ! Suc k" if "i \<le> k" "k < length (snd (pop i xs))"
  proof -
    have "snd (pop i xs) ! k = drop (Suc i) xs ! (k - i)"
      using that assms by (simp add: pop_def nth_append min_def)
    also have "\<dots> = xs ! Suc k"
      using that len by simp
    finally show ?thesis .
  qed
qed

lemma remove_task_run:
  assumes "stdin w = line # rest" and "py_int line = Some pos"
    and "1 \<le> pos" and "pos \<le> int (length (tasks w))"
  shows "remove_task w =
           Inr (py_print (''Task '' @ [CHR 0x27] @ task (tasks w ! (nat pos - 1)) @ [CHR 0x27]
                            @ '' removed successfully!'')
                  ((py_print ''Enter the task number to remove: '' (view_tasks w))
                     \<lparr>stdin := rest, tasks := snd (pop (nat pos - 1) (tasks w))\<rparr>))"
proof -
  have ne: "tasks w \<noteq> []" using assms(3,4) by auto
  have idx: "nat (pos - 1) = nat pos - 1"
    using assms(3) by auto
  have rng: "in_range (pos - 1) (tasks w)"
    using assms(3,4) by (simp add: in_range_def)
  show ?thesis
    using assms(1,2) ne rng
    by (simp add: remove_task_def py_input_def py_print_def Let_def view_tasks_frame idx
                  pop_def)
qed

text \<open>
  C6. For a position from 1 to the length of the list, \<open>remove_task\<close> takes out exactly
  the task at that position: the list is shorter by one, the tasks before the position
  stay where they are, every task after it moves one position down. The removed task is
  handed to the confirmation display: the message that is printed names its title.
\<close>

theorem remove_task_postcondition:
  assumes "stdin w = line # rest" and "py_int line = Some pos"
    and "1 \<le> pos" and "pos \<le> int (length (tasks w))"
  shows "\<exists>w'. remove_task w = Inr w'
     \<and> Suc (length (tasks w')) = length (tasks w)
     \<and> tasks w' = take (nat pos - 1) (tasks w) @ drop (nat pos) (tasks w)
     \<and> (\<forall>k. k < nat pos - 1 \<longrightarrow> tasks w' ! k = tasks w ! k)
     \<and> (\<forall>k. nat pos - 1 \<le> k \<and> k < length (tasks w') \<longrightarrow> tasks w' ! k = tasks w ! Suc k)
     \<and> last (stdout w') = ''Task '' @ [CHR 0x27] @ task (tasks w ! (nat pos - 1)) @ [CHR 0x27]
                             @ '' removed successfully!''"
proof -
  define i where "i = nat pos - 1"
  define w' where "w' = py_print (''Task '' @ [CHR 0x27] @ task (tasks w ! i) @ [CHR 0x27]
                            @ '' removed successfully!'')
                  ((py_print ''Enter the task number to remove: '' (view_tasks w))
                     \<lparr>stdin := rest, tasks := snd (pop i (tasks w))\<rparr>)"
  have i: "i < length (tasks w)" and si: "Suc i = nat pos"
    using assms(3,4) by (auto simp: i_def)
  have run: "remove_task w = Inr w'"
    using remove_task_run[OF assms] by (simp add: w'_def i_def)
  have tk: "tasks w' = snd (pop i (tasks w))"
    by (simp add: w'_def py_print_def)
  have 1: "Suc (length (tasks w')) = length (tasks w)"
    unfolding tk by (rule pop_nth(1)[OF i])
  have 2: "tasks w' = take i (tasks w) @ drop (nat pos) (tasks w)"
    unfolding tk by (simp add: pop_def si)
  have 3: "\<forall>k. k < i \<longrightarrow> tasks w' ! k = tasks w ! k"
    unfolding tk using pop_nth(2)[OF i] by simp
  have 4: "\<forall>k. i \<le> k \<and> k < length (tasks w') \<longrightarrow> tasks w' ! k = tasks w ! Suc k"
    unfolding tk using pop_nth(3)[OF i] by simp
  have 5: "last (stdout w') = ''Task '' @ [CHR 0x27] @ task (tasks w ! i) @ [CHR 0x27]
                             @ '' removed successfully!''"
    by (simp add: w'_def py_print_def)
  from run 1 2 3 4 5 show ?thesis
    unfolding i_def by (intro exI[of _ w'] conjI)
qed

theorem remove_task_postcondition_witness:
  "\<exists>w'. remove_task (session [buy_milk, pay_rent, call_ann] Map.empty [''2'']) = Inr w'
     \<and> tasks w' = [buy_milk, call_ann]
     \<and> last (stdout w') = ''Task 'Pay rent' removed successfully!''"
proof -
  let ?w = "session [buy_milk, pay_rent, call_ann] Map.empty [''2'']"
  have h1: "stdin ?w = ''2'' # []" by (simp add: session_def)
  have h2: "py_int ''2'' = Some 2"
    by (simp add: py_int_def int_space_def isdigit_def parse_nat_def digit_value_def)
  have h3: "(1::int) \<le> 2" by simp
  have h4: "(2::int) \<le> int (length (tasks ?w))" by (simp add: session_def)
  show ?thesis
    using remove_task_postcondition[OF h1 h2 h3 h4]
    by (auto simp: session_def pay_rent_def)
qed

section \<open>What each operation can do to the list\<close>

lemma add_task_tasks:
  "tasks (outcome (add_task w)) = tasks w
   \<or> (\<exists>t. status t = ''Open'' \<and> tasks (outcome (add_task w)) = tasks w @ [t])"
  by (simp add: add_task_def py_input_def py_print_def datetime_now_def Let_def outcome_def
           split: list.splits)

lemma remove_task_tasks:
  "tasks (outcome (remove_task w)) = tasks w
   \<or> (\<exists>i. i < length (tasks w)
          \<and> tasks (outcome (remove_task w)) = take i (tasks w) @ drop (Suc i) (tasks w))"
proof -
  have "in_range (n - 1) (tasks w) \<Longrightarrow> nat (n - 1) < length (tasks w)" for n
    by (auto simp: in_range_def)
  then show ?thesis
    by (auto simp: remove_task_def py_input_def py_print_def Let_def outcome_def pop_def
                   view_tasks_frame
             split: list.splits option.splits)
qed

lemma update_task_status_tasks:
  "tasks (outcome (update_task_status w)) = tasks w
   \<or> (\<exists>i s. i < length (tasks w) \<and> s \<in> set STATUSES
          \<and> tasks (outcome (update_task_status w))
              = (tasks w)[i := (tasks w ! i)\<lparr>status := s,
                                              status_updated_at := clock w (ticks w)\<rparr>])"
proof -
  have r1: "in_range (n - 1) (tasks w) \<Longrightarrow> nat (n - 1) < length (tasks w)" for n
    by (auto simp: in_range_def)
  have r2: "in_range (m - 1) STATUSES \<Longrightarrow> STATUSES ! nat (m - 1) \<in> set STATUSES" for m
    by (auto simp: in_range_def)
  show ?thesis
    using r1 r2
    by (auto simp: update_task_status_def py_input_def py_print_def Let_def outcome_def
                   datetime_now_def view_tasks_frame print_each_frame
             split: list.splits option.splits)
qed

section \<open>Changing a status\<close>

lemma update_task_status_run:
  assumes "stdin w = line # status_line # rest" and "py_int line = Some pos"
    and "1 \<le> pos" and "pos \<le> int (length (tasks w))"
    and "py_int status_line = Some choice"
  shows "\<exists>w'. update_task_status w = Inr w' \<and> files w' = files w \<and> stdin w' = rest
           \<and> tasks w' =
               (if 1 \<le> choice \<and> choice \<le> int (length STATUSES)
                then (tasks w)[nat pos - 1 := (tasks w ! (nat pos - 1))
                        \<lparr>status := STATUSES ! (nat choice - 1),
                         status_updated_at := clock w (ticks w)\<rparr>]
                else tasks w)"
proof -
  have ne: "tasks w \<noteq> []" using assms(3,4) by auto
  have idx: "nat (pos - 1) = nat pos - 1"
    using assms(3) by auto
  have rng: "in_range (pos - 1) (tasks w)"
    using assms(3,4) by (simp add: in_range_def)
  have rng2: "in_range (choice - 1) STATUSES \<longleftrightarrow> 1 \<le> choice \<and> choice \<le> int (length STATUSES)"
    by (auto simp: in_range_def)
  have idx2: "1 \<le> choice \<Longrightarrow> nat (choice - 1) = nat choice - 1"
    by auto
  have lt: "nat pos - 1 < length (tasks w)"
    using assms(3,4) by auto
  show ?thesis
    using assms(1,2,5) ne rng lt
    by (simp add: update_task_status_def py_input_def py_print_def Let_def datetime_now_def
                  view_tasks_frame print_each_frame idx rng2 idx2)
qed

text \<open>
  C4. A position outside 1 .. length leaves the list as it is, in \<open>remove_task\<close> and in
  \<open>update_task_status\<close>; so does, in \<open>update_task_status\<close>, a status number outside
  1 .. 5 after a valid position: no status is applied and no time stamp is changed.
  The files are not touched either.
\<close>

theorem out_of_range_no_op:
  "(stdin w = line # rest \<and> py_int line = Some pos
      \<and> (pos < 1 \<or> int (length (tasks w)) < pos)
    \<longrightarrow> (\<exists>w'. remove_task w = Inr w' \<and> tasks w' = tasks w \<and> files w' = files w)
        \<and> (\<exists>w'. update_task_status w = Inr w' \<and> tasks w' = tasks w \<and> files w' = files w))
   \<and> (stdin w = line # status_line # rest' \<and> py_int line = Some pos
      \<and> 1 \<le> pos \<and> pos \<le> int (length (tasks w))
      \<and> py_int status_line = Some choice \<and> (choice < 1 \<or> int (length STATUSES) < choice)
    \<longrightarrow> (\<exists>w'. update_task_status w = Inr w' \<and> tasks w' = tasks w \<and> files w' = files w))"
proof (intro conjI impI)
  assume a: "stdin w = line # rest \<and> py_int line = Some pos
      \<and> (pos < 1 \<or> int (length (tasks w)) < pos)"
  then have out: "\<not> in_range (pos - 1) (tasks w)"
    by (auto simp: in_range_def)
  show "\<exists>w'. remove_task w = Inr w' \<and> tasks w' = tasks w \<and> files w' = files w"
    using a out
    by (simp add: remove_task_def py_input_def py_print_def Let_def view_tasks_frame)
  show "\<exists>w'. update_task_status w = Inr w' \<and> tasks w' = tasks w \<and> files w' = files w"
    using a out
    by (simp add: update_task_status_def py_input_def py_print_def Let_def view_tasks_frame)
next
  assume b: "stdin w = line # status_line # rest' \<and> py_int line = Some pos
      \<and> 1 \<le> pos \<and> pos \<le> int (length (tasks w))
      \<and> py_int status_line = Some choice \<and> (choice < 1 \<or> int (length STATUSES) < choice)"
  then have "\<not> (1 \<le> choice \<and> choice \<le> int (length STATUSES))" by auto
  then show "\<exists>w'. update_task_status w = Inr w' \<and> tasks w' = tasks w \<and> files w' = files w"
    using update_task_status_run[of w line status_line rest' pos choice] b by auto
qed

lemma py_int_digit:
  "py_int ''0'' = Some 0" "py_int ''1'' = Some 1" "py_int ''2'' = Some 2"
  "py_int ''5'' = Some 5" "py_int ''9'' = Some 9"
  by (simp_all add: py_int_def int_space_def isdigit_def parse_nat_def digit_value_def)

text \<open>
  \<open>int()\<close> takes white space, a sign and single underscores between digits, and refuses
  the separators U+001C to U+001F that \<open>strip()\<close> removes.
\<close>

lemma py_int_examples:
  "py_int ('' 2'' @ [CHR 0x0A]) = Some 2" "py_int [CHR 0x85, CHR ''1'', CHR 0xA0] = Some 1"
  "py_int ''1_0'' = Some 10" "py_int ''-3'' = Some (- 3)" "py_int ''+4'' = Some 4"
  "py_int [CHR 0x1C, CHR ''1''] = None" "py_int (''5'' @ [CHR 0x1F]) = None"
  "py_int ''1__0'' = None" "py_int ''- 3'' = None" "py_int '''' = None"
  "py_int ''two'' = None"
  "strip [CHR 0x1C, CHR ''1''] = ''1''"
  by (simp_all add: py_int_def int_space_def isdigit_def parse_nat_def digit_value_def
                    strip_def isspace_def)

text \<open>
  The list of two tasks: \<open>remove_task\<close> with position 5, \<open>update_task_status\<close> with
  position 0, and \<open>update_task_status\<close> with position 1 and status number 9.
\<close>

theorem out_of_range_no_op_witness:
  "(\<exists>w'. remove_task (session [buy_milk, pay_rent] Map.empty [''5'']) = Inr w'
        \<and> tasks w' = [buy_milk, pay_rent])
   \<and> (\<exists>w'. update_task_status (session [buy_milk, pay_rent] Map.empty [''0'']) = Inr w'
        \<and> tasks w' = [buy_milk, pay_rent])
   \<and> (\<exists>w'. update_task_status (session [buy_milk, pay_rent] Map.empty [''1'', ''9'']) = Inr w'
        \<and> tasks w' = [buy_milk, pay_rent])"
proof -
  have a: "\<exists>w'. remove_task (session [buy_milk, pay_rent] Map.empty [''5'']) = Inr w'
        \<and> tasks w' = [buy_milk, pay_rent]"
    using out_of_range_no_op[where w = "session [buy_milk, pay_rent] Map.empty [''5'']"
        and line = "''5''" and rest = "[]" and pos = 5]
    by (auto simp: session_def py_int_digit)
  have b: "\<exists>w'. update_task_status (session [buy_milk, pay_rent] Map.empty [''0'']) = Inr w'
        \<and> tasks w' = [buy_milk, pay_rent]"
    using out_of_range_no_op[where w = "session [buy_milk, pay_rent] Map.empty [''0'']"
        and line = "''0''" and rest = "[]" and pos = 0]
    by (auto simp: session_def py_int_digit)
  have c: "\<exists>w'. update_task_status (session [buy_milk, pay_rent] Map.empty [''1'', ''9'']) = Inr w'
        \<and> tasks w' = [buy_milk, pay_rent]"
    using out_of_range_no_op[where w = "session [buy_milk, pay_rent] Map.empty [''1'', ''9'']"
        and line = "''1''" and status_line = "''9''" and rest' = "[]" and pos = 1 and choice = 9]
    by (auto simp: session_def py_int_digit STATUSES_def)
  from a b c show ?thesis by blast
qed

text \<open>
  C3, as the code has it. For a position from 1 to the length of the list and a status
  number from 1 to 5, \<open>update_task_status\<close> changes the status and \<open>status_updated_at\<close>
  of the task at that position and nothing else: the length of the list, every other
  task, and the title and \<open>created_at\<close> of the task itself stay as they were. The new
  \<open>status_updated_at\<close> is the reading of the clock taken at the update; it is at least
  the previous value when that reading is.
\<close>

theorem update_task_status_frame:
  assumes "stdin w = line # status_line # rest" and "py_int line = Some pos"
    and "1 \<le> pos" and "pos \<le> int (length (tasks w))"
    and "py_int status_line = Some choice"
    and "1 \<le> choice" and "choice \<le> int (length STATUSES)"
  shows "\<exists>w'. update_task_status w = Inr w'
     \<and> length (tasks w') = length (tasks w)
     \<and> (\<forall>k. k < length (tasks w) \<and> k \<noteq> nat pos - 1 \<longrightarrow> tasks w' ! k = tasks w ! k)
     \<and> task (tasks w' ! (nat pos - 1)) = task (tasks w ! (nat pos - 1))
     \<and> created_at (tasks w' ! (nat pos - 1)) = created_at (tasks w ! (nat pos - 1))
     \<and> status (tasks w' ! (nat pos - 1)) = STATUSES ! (nat choice - 1)
     \<and> status_updated_at (tasks w' ! (nat pos - 1)) = clock w (ticks w)
     \<and> (status_updated_at (tasks w ! (nat pos - 1)) \<le> clock w (ticks w)
          \<longrightarrow> status_updated_at (tasks w ! (nat pos - 1))
                \<le> status_updated_at (tasks w' ! (nat pos - 1)))
     \<and> files w' = files w"
proof -
  have lt: "nat pos - 1 < length (tasks w)"
    using assms(3,4) by auto
  obtain w' where run: "update_task_status w = Inr w'" and f: "files w' = files w"
    and tk: "tasks w' = (tasks w)[nat pos - 1 := (tasks w ! (nat pos - 1))
                        \<lparr>status := STATUSES ! (nat choice - 1),
                         status_updated_at := clock w (ticks w)\<rparr>]"
    using update_task_status_run[OF assms(1-5)] assms(6,7) by auto
  show ?thesis
    using run f lt by (intro exI[of _ w']) (simp add: tk)
qed

theorem update_task_status_frame_witness:
  "\<exists>w'. update_task_status (session [buy_milk, pay_rent, call_ann] Map.empty [''2'', ''5''])
          = Inr w'
     \<and> length (tasks w') = 3
     \<and> tasks w' ! 0 = buy_milk \<and> tasks w' ! 2 = call_ann
     \<and> task (tasks w' ! 1) = ''Pay rent''
     \<and> created_at (tasks w' ! 1) = ''2024-04-28 09:15:00''
     \<and> status (tasks w' ! 1) = ''Done''
     \<and> status_updated_at (tasks w' ! 1) = ''2024-05-01 12:00:00''"
proof -
  let ?w = "session [buy_milk, pay_rent, call_ann] Map.empty [''2'', ''5'']"
  have h1: "stdin ?w = ''2'' # ''5'' # []" by (simp add: session_def)
  have h4: "(2::int) \<le> int (length (tasks ?w))" by (simp add: session_def)
  have h7: "(5::int) \<le> int (length STATUSES)" by (simp add: STATUSES_def)
  show ?thesis
    using update_task_status_frame[OF h1 py_int_digit(3) _ h4 py_int_digit(4) _ h7]
    by (auto simp: session_def pay_rent_def STATUSES_def)
qed

text \<open>
  C3 as stated fails: \<open>datetime.now()\<close> is the wall clock, and nothing compares it with
  the time stamp that is stored. A task whose \<open>status_updated_at\<close> is later than the
  reading of the clock (the clock was set back, or the stamp came from a file) gets an
  earlier \<open>status_updated_at\<close>.
\<close>

theorem update_task_status_frame_counterexample:
  "map status_updated_at
     (tasks (outcome (update_task_status
        (session [\<lparr>task = ''Buy milk'', status = ''Open'',
                   created_at = ''2024-05-01 12:30:00'',
                   status_updated_at = ''2024-05-01 12:30:00''\<rparr>] Map.empty [''1'', ''5'']))))
     = [''2024-05-01 12:00:00'']
   \<and> \<not> ''2024-05-01 12:30:00'' \<le> ''2024-05-01 12:00:00''"
  by (simp add: update_task_status_def py_input_def py_print_def Let_def datetime_now_def
                view_tasks_frame print_each_frame outcome_def session_def in_range_def
                py_int_digit STATUSES_def)

section \<open>The status of every task\<close>

text \<open>
  C2, as the code has it. \<open>add_task\<close>, \<open>update_task_status\<close> and \<open>remove_task\<close> keep
  the status of every task of the list among the five labels. \<open>load_tasks\<close> does so when
  every line of the file with four fields has one of the five labels as its second
  field: it takes the field as it is and checks nothing.
\<close>

theorem status_invariant:
  assumes "\<forall>t \<in> set (tasks w). valid_status t"
  shows "(\<forall>t \<in> set (tasks (outcome (add_task w))). valid_status t)
       \<and> (\<forall>t \<in> set (tasks (outcome (update_task_status w))). valid_status t)
       \<and> (\<forall>t \<in> set (tasks (outcome (remove_task w))). valid_status t)
       \<and> ((\<forall>content. files w (resolve w filename) = Some content \<longrightarrow>
              (\<forall>l \<in> set (readlines (universal_newlines content)).
                 four_fields l \<longrightarrow> valid_status (task_of_line l)))
           \<longrightarrow> (\<forall>t \<in> set (tasks (outcome (load_tasks filename w))). valid_status t))"
proof (intro conjI impI)
  show "\<forall>t \<in> set (tasks (outcome (add_task w))). valid_status t"
    using add_task_tasks[of w] assms by (auto simp: valid_status_def STATUSES_def)
  show "\<forall>t \<in> set (tasks (outcome (update_task_status w))). valid_status t"
  proof -
    have "\<forall>t \<in> set (xs[i := (xs ! i)\<lparr>status := s, status_updated_at := n\<rparr>]). valid_status t"
      if "\<forall>t \<in> set xs. valid_status t" "s \<in> set STATUSES" for xs i s n
    proof
      fix t assume "t \<in> set (xs[i := (xs ! i)\<lparr>status := s, status_updated_at := n\<rparr>])"
      then have "t = (xs ! i)\<lparr>status := s, status_updated_at := n\<rparr> \<or> t \<in> set xs"
        using set_update_subset_insert[of xs i] by blast
      then show "valid_status t"
        using that by (auto simp: valid_status_def)
    qed
    then show ?thesis
      using update_task_status_tasks[of w] assms by metis
  qed
  show "\<forall>t \<in> set (tasks (outcome (remove_task w))). valid_status t"
  proof -
    have "set (take i xs @ drop (Suc i) xs) \<subseteq> set xs" for i and xs :: "task_entry list"
      using set_take_subset[of i xs] set_drop_subset[of "Suc i" xs] by auto
    then show ?thesis
      using remove_task_tasks[of w] assms by (metis subsetD)
  qed
next
  assume fileok: "\<forall>content. files w (resolve w filename) = Some content \<longrightarrow>
              (\<forall>l \<in> set (readlines (universal_newlines content)).
                 four_fields l \<longrightarrow> valid_status (task_of_line l))"
  show "\<forall>t \<in> set (tasks (outcome (load_tasks filename w))). valid_status t"
    using assms fileok load_tasks_tasks[of filename w] by auto
qed

theorem status_invariant_witness:
  "list_all valid_status
     (tasks (outcome (add_task (session [buy_milk, pay_rent]
        [''/home/user/tasks_app/tasks.txt'' \<mapsto>
           ''Call Ann|Review|2024-04-29 08:00:00|2024-04-29 08:05:00'' @ [CHR 0x0A]]
        [''Water plants'']))))
   \<and> list_all valid_status
     (tasks (outcome (load_tasks ''tasks.txt'' (session [buy_milk, pay_rent]
        [''/home/user/tasks_app/tasks.txt'' \<mapsto>
           ''Call Ann|Review|2024-04-29 08:00:00|2024-04-29 08:05:00'' @ [CHR 0x0A]]
        [''Water plants'']))))"
proof -
  let ?w = "session [buy_milk, pay_rent]
        [''/home/user/tasks_app/tasks.txt'' \<mapsto>
           ''Call Ann|Review|2024-04-29 08:00:00|2024-04-29 08:05:00'' @ [CHR 0x0A]]
        [''Water plants'']"
  have h: "\<forall>t \<in> set (tasks ?w). valid_status t"
    by (simp add: session_def valid_status_def buy_milk_def pay_rent_def STATUSES_def)
  have f: "\<forall>content. files ?w (resolve ?w ''tasks.txt'') = Some content \<longrightarrow>
              (\<forall>l \<in> set (readlines (universal_newlines content)).
                 four_fields l \<longrightarrow> valid_status (task_of_line l))"
    by (simp add: session_def resolve_def path_join_def four_fields_def task_of_line_def
                  fields_def strip_def isspace_def valid_status_def STATUSES_def)
  show ?thesis
    using status_invariant[OF h, of "''tasks.txt''"] f
    by (simp add: list_all_iff)
qed

text \<open>
  C2 as stated fails for \<open>load_tasks\<close>: a line of the file with four fields is loaded
  whatever its second field is.
\<close>

theorem status_invariant_counterexample:
  "map status (tasks (outcome (load_tasks ''tasks.txt'' (session []
        [''/home/user/tasks_app/tasks.txt'' \<mapsto>
           ''Buy milk|Someday|2024-05-01 12:00:00|2024-05-01 12:00:00'' @ [CHR 0x0A]] []))))
     = [''Someday'']
   \<and> ''Someday'' \<notin> set STATUSES"
  by (simp add: load_tasks_def path_exists_def outcome_def session_def resolve_def
                path_join_def strip_def isspace_def STATUSES_def)

section \<open>The console\<close>

lemma print_each_eq: "print_each f i xs w = w\<lparr>stdout := stdout w @ each_lines f i xs\<rparr>"
  by (induction xs arbitrary: i w) (simp_all add: py_print_def)

lemma view_tasks_eq: "view_tasks w = w\<lparr>stdout := stdout w @ view_lines (tasks w)\<rparr>"
  by (simp add: view_tasks_def view_lines_def print_each_eq py_print_def)

lemma display_menu_eq: "display_menu w = w\<lparr>stdout := stdout w @ menu\<rparr>"
  by (simp add: display_menu_def py_print_def menu_def)




text \<open>
  A line with one of the separators U+001C to U+001F is no number for \<open>int()\<close>: the
  two operations print the request for a valid number and change nothing.
\<close>

lemma remove_task_separator:
  "remove_task (session [buy_milk, pay_rent] Map.empty [[CHR 0x1C, CHR ''1'']]) =
     Inr ((session [buy_milk, pay_rent] Map.empty [])
            \<lparr>stdout := view_lines [buy_milk, pay_rent]
                         @ [''Enter the task number to remove: '',
                            ''Please enter a valid number.'']\<rparr>)"
  by (simp add: remove_task_def view_tasks_eq py_input_def py_print_def Let_def
                py_int_examples session_def)

lemma update_task_status_separator:
  "tasks (outcome (update_task_status
      (session [buy_milk, pay_rent] Map.empty [''1'', ''5'' @ [CHR 0x1F]])))
     = [buy_milk, pay_rent]
   \<and> last (stdout (outcome (update_task_status
      (session [buy_milk, pay_rent] Map.empty [''1'', ''5'' @ [CHR 0x1F]]))))
     = ''Please enter a valid number.''"
  using py_int_examples(7)
  by (simp add: update_task_status_def view_tasks_eq print_each_eq py_input_def py_print_def
                Let_def py_int_digit in_range_def outcome_def session_def)

section \<open>One pass through the loop\<close>








section \<open>The whole loop\<close>











section \<open>Where the file is\<close>

text \<open>
  \<open>main\<close> passes no file name, so \<open>load_tasks\<close> and \<open>save_tasks\<close> open the relative
  path \<open>tasks.txt\<close>, which the operating system takes from the working directory.
  \<open>handle_file\<close>, which joins the name to the directory of the script, is never called.
\<close>

lemma main_file_path:
  "resolve w ''tasks.txt'' = path_join (cwd w) ''tasks.txt''"
  "fst (handle_file ''tasks.txt'' w) \<noteq> None
     \<Longrightarrow> fst (handle_file ''tasks.txt'' w) = Some (path_join (script_dir w) ''tasks.txt'')"
  by (auto simp: resolve_def handle_file_def path_exists_def Let_def
           split: option.splits if_splits)

text \<open>
  C8 fails on the code. The program is in \<open>/home/user/tasks_app\<close>, where its file holds
  one task, and is run from \<open>/home/user\<close>; the user enters \<open>6\<close>. \<open>handle_file\<close> gives the
  path beside the program, but \<open>main\<close> loads no task, leaves that file as it is and
  writes an empty \<open>/home/user/tasks.txt\<close>.
\<close>

theorem main_uses_working_directory:
  "fst (handle_file ''tasks.txt''
          ((session [] [''/home/user/tasks_app/tasks.txt'' \<mapsto> task_line buy_milk] [''6''])
             \<lparr>cwd := ''/home/user''\<rparr>))
     = Some ''/home/user/tasks_app/tasks.txt''
   \<and> raised (main ((session [] [''/home/user/tasks_app/tasks.txt'' \<mapsto> task_line buy_milk]
                      [''6'']) \<lparr>cwd := ''/home/user''\<rparr>)) = None
   \<and> tasks (outcome (main ((session [] [''/home/user/tasks_app/tasks.txt'' \<mapsto> task_line buy_milk]
                      [''6'']) \<lparr>cwd := ''/home/user''\<rparr>))) = []
   \<and> files (outcome (main ((session [] [''/home/user/tasks_app/tasks.txt'' \<mapsto> task_line buy_milk]
                      [''6'']) \<lparr>cwd := ''/home/user''\<rparr>))) ''/home/user/tasks.txt'' = Some []
   \<and> files (outcome (main ((session [] [''/home/user/tasks_app/tasks.txt'' \<mapsto> task_line buy_milk]
                      [''6'']) \<lparr>cwd := ''/home/user''\<rparr>))) ''/home/user/tasks_app/tasks.txt''
       = Some (task_line buy_milk)"
proof -
  let ?w = "(session [] [''/home/user/tasks_app/tasks.txt'' \<mapsto> task_line buy_milk] [''6''])
              \<lparr>cwd := ''/home/user''\<rparr>"
  have hf: "fst (handle_file ''tasks.txt'' ?w) = Some ''/home/user/tasks_app/tasks.txt''"
    by (simp add: handle_file_def path_exists_def session_def resolve_def path_join_def
                  Let_def)
  have run: "main ?w =
     Inr (?w\<lparr>files := [''/home/user/tasks_app/tasks.txt'' \<mapsto> task_line buy_milk,
                        ''/home/user/tasks.txt'' \<mapsto> []],
             stdin := [],
             stdout := menu @ [''Choose an option (1-6): '', ''Tasks saved, Goodbye!'']\<rparr>)"
    apply (simp add: main_def load_tasks_def path_exists_def session_def resolve_def
                     path_join_def)
    apply (subst main_loop.simps)
    apply (simp add: iteration_def py_input_def py_print_def display_menu_eq Let_def
                     strip_def isspace_def save_tasks_def resolve_def path_join_def)
    done
  show ?thesis
    unfolding run using hf by (simp add: raised_def outcome_def session_def)
qed

end
